theory Spec2Isabelle
  imports Complex_Main "HOL-Library.Sublist"
begin

section \<open>Python strings\<close>

text \<open>
  A Python \<^verbatim>\<open>str\<close> is a sequence of Unicode code points; it is modelled as a list of
  natural numbers, one per code point.  \<open>ustr\<close> turns an ASCII literal into such a list.
\<close>

type_synonym pystr = "nat list"

definition ustr :: "string \<Rightarrow> pystr" where
  "ustr s = map of_char s"

text \<open>
  \<^verbatim>\<open>str.isspace\<close>, \<^verbatim>\<open>str.strip()\<close> and the class \<^verbatim>\<open>\s\<close> of \<^verbatim>\<open>re\<close> share one set of
  code points (CPython's \<^verbatim>\<open>Py_UNICODE_ISSPACE\<close>): U+0009..U+000D, U+001C..U+0020, U+0085,
  U+00A0, U+1680, U+2000..U+200A, U+2028, U+2029, U+202F, U+205F, U+3000.
\<close>

definition is_space :: "nat \<Rightarrow> bool" where
  "is_space c =
     ((9 \<le> c \<and> c \<le> 13) \<or> (28 \<le> c \<and> c \<le> 32) \<or> c = 133 \<or> c = 160 \<or> c = 5760 \<or>
      (8192 \<le> c \<and> c \<le> 8202) \<or> c = 8232 \<or> c = 8233 \<or> c = 8239 \<or> c = 8287 \<or>
      c = 12288)"

text \<open>\<^verbatim>\<open>s.strip()\<close>: drop the white space at both ends.\<close>

definition strip :: "pystr \<Rightarrow> pystr" where
  "strip s = rev (dropWhile is_space (rev (dropWhile is_space s)))"

text \<open>
  \<^verbatim>\<open>s.lower()\<close>, as far as ASCII is concerned.  The ASCII capitals go to their small
  letters; U+0130 goes to \<^verbatim>\<open>i\<close> followed by U+0307 and U+212A (the Kelvin sign) goes to
  \<^verbatim>\<open>k\<close>: these are the only code points outside ASCII whose lower-case form contains an
  ASCII character.  Every other code point outside ASCII lower-cases to one or more code
  points outside ASCII and is kept as it is here, which leaves the ASCII runs of the
  result, and so the containment of any ASCII key, as Python has them.
\<close>

definition lower_cp :: "nat \<Rightarrow> pystr" where
  "lower_cp c =
     (if 65 \<le> c \<and> c \<le> 90 then [c + 32]
      else if c = 304 then [105, 775]
      else if c = 8490 then [107]
      else [c])"

definition lower :: "pystr \<Rightarrow> pystr" where
  "lower s = concat (map lower_cp s)"

text \<open>\<^verbatim>\<open>k in p\<close> on strings: \<open>k\<close> occurs in \<open>p\<close> as a contiguous run.\<close>

fun contains :: "pystr \<Rightarrow> pystr \<Rightarrow> bool" where
  "contains k [] = (k = [])"
| "contains k (c # cs) = (prefix k (c # cs) \<or> contains k cs)"

section \<open>Currency detector\<close>

text \<open>\<^verbatim>\<open>CURRENCY_MAP\<close>: a dict literal with distinct keys, kept in insertion order.\<close>

definition CURRENCY_MAP :: "(pystr \<times> pystr) list" where
  "CURRENCY_MAP =
     [(ustr ''india'', ustr ''INR''), (ustr ''ind'', ustr ''INR''),
      (ustr ''saudi'', ustr ''SAR''), (ustr ''saudi arabia'', ustr ''SAR''),
      (ustr ''kingdom'', ustr ''SAR''), (ustr ''uae'', ustr ''AED''),
      (ustr ''united arab emirates'', ustr ''AED''), (ustr ''united states'', ustr ''USD''),
      (ustr ''usa'', ustr ''USD''), (ustr ''us'', ustr ''USD''),
      (ustr ''america'', ustr ''USD''), (ustr ''canada'', ustr ''CAD''),
      (ustr ''australia'', ustr ''AUD''), (ustr ''uk'', ustr ''GBP''),
      (ustr ''united kingdom'', ustr ''GBP''), (ustr ''germany'', ustr ''EUR''),
      (ustr ''france'', ustr ''EUR''), (ustr ''europe'', ustr ''EUR''),
      (ustr ''japan'', ustr ''JPY''), (ustr ''china'', ustr ''CNY''),
      (ustr ''pakistan'', ustr ''PKR''), (ustr ''bahrain'', ustr ''BHD''),
      (ustr ''qatar'', ustr ''QAR''), (ustr ''oman'', ustr ''OMR'')]"

text \<open>The \<^verbatim>\<open>for k, v in CURRENCY_MAP.items()\<close> loop with its early return.\<close>

fun detect_loop :: "(pystr \<times> pystr) list \<Rightarrow> pystr \<Rightarrow> pystr" where
  "detect_loop [] p = ustr ''USD''"
| "detect_loop ((k, v) # kvs) p = (if contains k p then v else detect_loop kvs p)"

definition detect_currency_code :: "pystr \<Rightarrow> pystr" where
  "detect_currency_code place =
     (if place = [] then ustr ''USD''
      else detect_loop CURRENCY_MAP (lower (strip place)))"

section \<open>Numbers\<close>

text \<open>
  A Python \<^verbatim>\<open>float\<close> is a binary64 number.  It is modelled by the rational number it
  denotes, or one of the three values that are not numbers; the sign of zero is not
  modelled.  Every operation rounds its exact result to the nearest binary64 number, a
  tie going to the even significand, as the machine does.
\<close>

datatype pyfloat = Fin rat | PInf | NInf | NaN

text \<open>The integer nearest to a rational, a tie going to the even one.\<close>

definition round_half_even :: "rat \<Rightarrow> int" where
  "round_half_even x =
     (let f = \<lfloor>x\<rfloor>; d = x - of_int f
      in if d < 1 / 2 then f else if 1 / 2 < d then f + 1 else if even f then f else f + 1)"

text \<open>
  The number of binary digits of a natural number, and with it the exponent \<open>e\<close> of a
  positive rational \<open>a\<close>: the integer with \<open>2 ^ e \<le> a < 2 ^ (e + 1)\<close>.
\<close>

fun bit_length :: "nat \<Rightarrow> nat" where
  "bit_length n = (if n = 0 then 0 else Suc (bit_length (n div 2)))"

declare bit_length.simps [simp del]

definition binary_exponent :: "rat \<Rightarrow> int" where
  "binary_exponent a =
     (if 1 \<le> a then int (bit_length (nat \<lfloor>a\<rfloor>)) - 1
      else - int (bit_length (nat (\<lceil>1 / a\<rceil> - 1))))"

definition pow2 :: "int \<Rightarrow> rat" where
  "pow2 e = (if 0 \<le> e then 2 ^ nat e else 1 / 2 ^ nat (- e))"

text \<open>
  Rounding to binary64: 53 significant binary digits, the exponent of a normal number
  from -1022 to 1023, subnormal numbers in steps of \<open>2 ^ - 1074\<close> below, and an infinity
  when the rounded magnitude reaches \<open>2 ^ 1024\<close>.
\<close>

definition round_binary64 :: "rat \<Rightarrow> pyfloat" where
  "round_binary64 q =
     (if q = 0 then Fin 0
      else (let a = \<bar>q\<bar>;
                e = max (binary_exponent a) (- 1022);
                u = pow2 (e - 52);
                r = of_int (round_half_even (a / u)) * u
            in if pow2 1024 \<le> r then (if q < 0 then NInf else PInf)
               else Fin (if q < 0 then - r else r)))"

text \<open>\<^verbatim>\<open>x + y\<close> and \<^verbatim>\<open>x / 2.0\<close> on floats.\<close>

fun fadd :: "pyfloat \<Rightarrow> pyfloat \<Rightarrow> pyfloat" where
  "fadd (Fin a) (Fin b) = round_binary64 (a + b)"
| "fadd NaN _ = NaN"
| "fadd _ NaN = NaN"
| "fadd PInf NInf = NaN"
| "fadd NInf PInf = NaN"
| "fadd PInf _ = PInf"
| "fadd _ PInf = PInf"
| "fadd NInf _ = NInf"
| "fadd _ NInf = NInf"

fun fhalf :: "pyfloat \<Rightarrow> pyfloat" where
  "fhalf (Fin a) = round_binary64 (a / 2)"
| "fhalf x = x"

text \<open>
  \<^verbatim>\<open>round(x, 2)\<close>: the exact value of the float is rounded to the nearest multiple of
  1/100, a tie going to the even multiple, and the float nearest to that decimal is
  returned; infinities and NaN are returned as they are.
\<close>

definition round2 :: "rat \<Rightarrow> rat" where
  "round2 x = of_int (round_half_even (x * 100)) / 100"

fun fround2 :: "pyfloat \<Rightarrow> pyfloat" where
  "fround2 (Fin a) = round_binary64 (round2 a)"
| "fround2 x = x"

text \<open>
  The decimal digits of Unicode (category Nd, which \<^verbatim>\<open>\d\<close> of \<^verbatim>\<open>re\<close> matches and
  \<^verbatim>\<open>float\<close> and \<^verbatim>\<open>int\<close> accept) come in runs of ten, for the values 0 to 9 in order.
  \<open>nd_zeros\<close> lists the code point of the zero of each run, in ascending order, as of
  Unicode 14.0 (the tables of CPython 3.11).
\<close>

definition nd_zeros :: "nat list" where
  "nd_zeros =
     [48, 1632, 1776, 1984, 2406, 2534, 2662, 2790, 2918, 3046, 3174, 3302, 3430, 3558,
      3664, 3792, 3872, 4160, 4240, 6112, 6160, 6470, 6608, 6784, 6800, 6992, 7088, 7232,
      7248, 42528, 43216, 43264, 43472, 43504, 43600, 44016, 65296, 66720, 68912, 69734,
      69872, 69942, 70096, 70384, 70736, 70864, 71248, 71360, 71472, 71904, 72016, 72784,
      73040, 73120, 92768, 92864, 93008, 120782, 120792, 120802, 120812, 120822, 123200,
      123632, 125264, 130032]"

text \<open>The zero of the run a code point belongs to, when it is a decimal digit.\<close>

fun nd_zero :: "nat list \<Rightarrow> nat \<Rightarrow> nat option" where
  "nd_zero [] c = None"
| "nd_zero (z # zs) c =
     (if c < z then None else if c < z + 10 then Some z else nd_zero zs c)"

definition is_decimal :: "nat \<Rightarrow> bool" where
  "is_decimal c = (nd_zero nd_zeros c \<noteq> None)"

definition decimal_value :: "nat \<Rightarrow> nat" where
  "decimal_value c = (case nd_zero nd_zeros c of None \<Rightarrow> 0 | Some z \<Rightarrow> c - z)"

text \<open>The number a sequence of ASCII digits denotes in base ten.\<close>

definition ascii_digit :: "nat \<Rightarrow> bool" where
  "ascii_digit c = (48 \<le> c \<and> c \<le> 57)"

definition digits_value :: "pystr \<Rightarrow> nat" where
  "digits_value ds = foldl (\<lambda>a c. 10 * a + (c - 48)) 0 ds"

text \<open>
  What \<^verbatim>\<open>float\<close> and \<^verbatim>\<open>int\<close> do to a string before they read it: a code point from
  U+007F on becomes a space when it is white space, its ASCII digit when it is a decimal
  digit, and \<^verbatim>\<open>?\<close> (which no literal contains) otherwise.  Then the ASCII white space
  (U+0009..U+000D and the space) is dropped at both ends.
\<close>

definition to_ascii :: "nat \<Rightarrow> nat" where
  "to_ascii c =
     (if c < 127 then c
      else if is_space c then 32
      else if is_decimal c then 48 + decimal_value c
      else 63)"

definition ascii_space :: "nat \<Rightarrow> bool" where
  "ascii_space c = ((9 \<le> c \<and> c \<le> 13) \<or> c = 32)"

definition literal_text :: "pystr \<Rightarrow> pystr" where
  "literal_text s =
     rev (dropWhile ascii_space (rev (dropWhile ascii_space (map to_ascii s))))"

text \<open>
  Underscores in a numeric literal: each stands between two digits.  \<open>prev\<close> is the
  character before, 0 at the start.
\<close>

fun underscores_ok :: "nat \<Rightarrow> pystr \<Rightarrow> bool" where
  "underscores_ok prev [] = (prev \<noteq> 95)"
| "underscores_ok prev (c # cs) =
     (if c = 95 then ascii_digit prev \<and> underscores_ok c cs
      else (prev \<noteq> 95 \<or> ascii_digit c) \<and> underscores_ok c cs)"

definition ascii_lower :: "pystr \<Rightarrow> pystr" where
  "ascii_lower s = map (\<lambda>c. if 65 \<le> c \<and> c \<le> 90 then c + 32 else c) s"

text \<open>The value of mantissa digits \<open>ip.fp\<close> with the decimal exponent \<open>e\<close>.\<close>

definition decimal_of :: "pystr \<Rightarrow> pystr \<Rightarrow> int \<Rightarrow> rat" where
  "decimal_of ip fp e =
     (let k = e - int (length fp); n = of_nat (digits_value (ip @ fp))
      in if 0 \<le> k then n * 10 ^ nat k else n / 10 ^ nat (- k))"

text \<open>
  An unsigned decimal literal: digits, an optional dot, digits, with a digit on at least
  one side of the dot, then an optional exponent (\<^verbatim>\<open>e\<close> or \<^verbatim>\<open>E\<close>, an optional sign and
  at least one digit).
\<close>

definition exponent_of :: "pystr \<Rightarrow> int option" where
  "exponent_of r =
     (case r of
        [] \<Rightarrow> Some 0
      | c # t \<Rightarrow>
          if c = 101 \<or> c = 69 then
            (let neg = (case t of [] \<Rightarrow> False | d # u \<Rightarrow> d = 45);
                 ds = (case t of [] \<Rightarrow> [] | d # u \<Rightarrow> if d = 43 \<or> d = 45 then u else t)
             in if ds \<noteq> [] \<and> list_all ascii_digit ds
                then Some (if neg then - int (digits_value ds) else int (digits_value ds))
                else None)
          else None)"

definition unsigned_decimal :: "pystr \<Rightarrow> rat option" where
  "unsigned_decimal s =
     (let ip = takeWhile ascii_digit s; r = dropWhile ascii_digit s;
          fp = (case r of [] \<Rightarrow> [] | c # t \<Rightarrow> if c = 46 then takeWhile ascii_digit t else []);
          r' = (case r of [] \<Rightarrow> [] | c # t \<Rightarrow> if c = 46 then dropWhile ascii_digit t else r)
      in if ip = [] \<and> fp = [] then None
         else (case exponent_of r' of None \<Rightarrow> None | Some e \<Rightarrow> Some (decimal_of ip fp e)))"

text \<open>
  \<^verbatim>\<open>float(s)\<close> on a string; \<open>None\<close> stands for \<^verbatim>\<open>ValueError\<close>.  After the preparation above
  and the check of the underscores, which are then dropped: an optional sign, then
  \<^verbatim>\<open>inf\<close>, \<^verbatim>\<open>infinity\<close> or \<^verbatim>\<open>nan\<close> in any case, or an unsigned decimal literal, whose
  value is rounded to binary64.
\<close>

definition unsigned_float :: "pystr \<Rightarrow> pyfloat option" where
  "unsigned_float s =
     (if ascii_lower s = ustr ''inf'' \<or> ascii_lower s = ustr ''infinity'' then Some PInf
      else if ascii_lower s = ustr ''nan'' then Some NaN
      else map_option round_binary64 (unsigned_decimal s))"

fun fneg :: "pyfloat \<Rightarrow> pyfloat" where
  "fneg (Fin a) = Fin (- a)"
| "fneg PInf = NInf"
| "fneg NInf = PInf"
| "fneg NaN = NaN"

definition py_float_str :: "pystr \<Rightarrow> pyfloat option" where
  "py_float_str s =
     (let t = literal_text s
      in if \<not> underscores_ok 0 t then None
         else (case filter (\<lambda>c. c \<noteq> 95) t of
                 [] \<Rightarrow> None
               | c # u \<Rightarrow>
                   if c = 45 then map_option fneg (unsigned_float u)
                   else if c = 43 then unsigned_float u
                   else unsigned_float (c # u)))"

section \<open>Number parser\<close>

datatype pyerr =
  ValueError pystr | TypeError pystr | OverflowError pystr | AttributeError pystr
  | RuntimeError pystr | OtherError pystr

text \<open>The text \<^verbatim>\<open>str(e)\<close> of an exception.\<close>

fun err_str :: "pyerr \<Rightarrow> pystr" where
  "err_str (ValueError m) = m"
| "err_str (TypeError m) = m"
| "err_str (OverflowError m) = m"
| "err_str (AttributeError m) = m"
| "err_str (RuntimeError m) = m"
| "err_str (OtherError m) = m"

text \<open>
  The argument of \<^verbatim>\<open>parse_number\<close>: \<^verbatim>\<open>None\<close>, a \<^verbatim>\<open>bool\<close> (an instance of \<^verbatim>\<open>int\<close>), an
  \<^verbatim>\<open>int\<close>, a \<^verbatim>\<open>float\<close>, a \<^verbatim>\<open>str\<close>, or any other object, which the function sees only
  through the text \<^verbatim>\<open>str(value)\<close> that \<open>VOther\<close> carries.
\<close>

datatype pyval = VNone | VBool bool | VInt int | VFloat pyfloat | VStr pystr | VOther pystr

text \<open>
  A character of the class \<^verbatim>\<open>[\d,\.]\<close>, and the pattern
  \<^verbatim>\<open>(\d[\d,\.]*)\s*[-\u2013]\s*(\d[\d,\.]*)\<close> tried at the start of a
  string.  Each
  starred class is followed by a character outside it, so giving characters back never
  helps: the greedy choice is the only one that can match.  The result is the two
  groups.
\<close>

definition is_numch :: "nat \<Rightarrow> bool" where
  "is_numch c = (is_decimal c \<or> c = 44 \<or> c = 46)"

definition is_dash :: "nat \<Rightarrow> bool" where
  "is_dash c = (c = 45 \<or> c = 8211)"

definition match_range_here :: "pystr \<Rightarrow> (pystr \<times> pystr) option" where
  "match_range_here s =
     (case s of
        [] \<Rightarrow> None
      | c # cs \<Rightarrow>
          if \<not> is_decimal c then None
          else (case dropWhile is_space (dropWhile is_numch cs) of
                  [] \<Rightarrow> None
                | d # r \<Rightarrow>
                    if \<not> is_dash d then None
                    else (case dropWhile is_space r of
                            [] \<Rightarrow> None
                          | e # t \<Rightarrow>
                              if \<not> is_decimal e then None
                              else Some (c # takeWhile is_numch cs, e # takeWhile is_numch t))))"

text \<open>
  \<^verbatim>\<open>re.match(r'.*?(\d[\d,\.]*)\s*[-\u2013]\s*(\d[\d,\.]*).*', s)\<close>: the lazy prefix
  \<^verbatim>\<open>.*?\<close> is tried empty first and then one character longer at a time, and \<^verbatim>\<open>.\<close>
  does not match the line feed (code point 10); the final \<^verbatim>\<open>.*\<close> matches whatever
  follows on the line, and \<^verbatim>\<open>re.match\<close> does not ask the match to reach the end.
\<close>

fun range_search :: "pystr \<Rightarrow> (pystr \<times> pystr) option" where
  "range_search [] = None"
| "range_search (c # cs) =
     (case match_range_here (c # cs) of
        Some g \<Rightarrow> Some g
      | None \<Rightarrow> if c = 10 then None else range_search cs)"

definition remove_commas :: "pystr \<Rightarrow> pystr" where
  "remove_commas s = filter (\<lambda>c. c \<noteq> 44) s"

text \<open>The message of the \<^verbatim>\<open>ValueError\<close> of \<^verbatim>\<open>float\<close> on a string of digits and dots.\<close>

definition float_error :: "pystr \<Rightarrow> pyerr" where
  "float_error s = ValueError (ustr ''could not convert string to float: '' @ [39] @ s @ [39])"

text \<open>
  \<^verbatim>\<open>float(i)\<close> on an \<^verbatim>\<open>int\<close>: the nearest float, and \<^verbatim>\<open>OverflowError\<close> when the integer
  is too large for one.
\<close>

definition float_of_int :: "int \<Rightarrow> pyerr + pyfloat" where
  "float_of_int i =
     (case round_binary64 (of_int i) of
        Fin r \<Rightarrow> Inr (Fin r)
      | _ \<Rightarrow> Inl (OverflowError (ustr ''int too large to convert to float'')))"

text \<open>\<^verbatim>\<open>parse_number\<close> from \<^verbatim>\<open>s = str(value).strip()\<close> on.\<close>

definition parse_number_str :: "pystr \<Rightarrow> pyerr + pyfloat" where
  "parse_number_str v =
     (let s = strip v
      in if s = [] then Inr (Fin 0)
         else (case range_search s of
                 Some (g1, g2) \<Rightarrow>
                   (case py_float_str (remove_commas g1) of
                      None \<Rightarrow> Inl (float_error (remove_commas g1))
                    | Some a \<Rightarrow>
                        (case py_float_str (remove_commas g2) of
                           None \<Rightarrow> Inl (float_error (remove_commas g2))
                         | Some b \<Rightarrow> Inr (fround2 (fhalf (fadd a b)))))
               | None \<Rightarrow>
                   (let cleaned = filter is_numch s
                    in if cleaned = [] then Inr (Fin 0)
                       else (let cleaned' =
                                   (if 1 < count_list cleaned 46 then remove_commas cleaned
                                    else cleaned)
                             in case py_float_str (remove_commas cleaned') of
                                  None \<Rightarrow> Inr (Fin 0)
                                | Some num \<Rightarrow> Inr (fround2 num)))))"

definition parse_number :: "pyval \<Rightarrow> pyerr + pyfloat" where
  "parse_number v =
     (case v of
        VNone \<Rightarrow> Inr (Fin 0)
      | VBool b \<Rightarrow> Inr (Fin (if b then 1 else 0))
      | VInt i \<Rightarrow> float_of_int i
      | VFloat x \<Rightarrow> Inr x
      | VStr s \<Rightarrow> parse_number_str s
      | VOther s \<Rightarrow> parse_number_str s)"

section \<open>Values of JSON\<close>

text \<open>
  The Python values that \<^verbatim>\<open>json.loads\<close> builds: \<^verbatim>\<open>None\<close>, \<^verbatim>\<open>bool\<close>, \<^verbatim>\<open>int\<close>, \<^verbatim>\<open>float\<close>,
  \<^verbatim>\<open>str\<close>, \<^verbatim>\<open>list\<close> and \<^verbatim>\<open>dict\<close>.  A dict is the list of its items in insertion order,
  with distinct keys.
\<close>

datatype json =
  JNull | JBool bool | JInt int | JFloat pyfloat | JStr pystr
  | JList "json list" | JDict "(pystr \<times> json) list"

text \<open>\<^verbatim>\<open>bool(v)\<close>, the truth value that \<^verbatim>\<open>not\<close> and \<^verbatim>\<open>or\<close> test.\<close>

fun truthy :: "json \<Rightarrow> bool" where
  "truthy JNull = False"
| "truthy (JBool b) = b"
| "truthy (JInt i) = (i \<noteq> 0)"
| "truthy (JFloat x) = (x \<noteq> Fin 0)"
| "truthy (JStr s) = (s \<noteq> [])"
| "truthy (JList xs) = (xs \<noteq> [])"
| "truthy (JDict kvs) = (kvs \<noteq> [])"

text \<open>The name of the type of a value, as error messages print it.\<close>

fun type_name :: "json \<Rightarrow> pystr" where
  "type_name JNull = ustr ''NoneType''"
| "type_name (JBool b) = ustr ''bool''"
| "type_name (JInt i) = ustr ''int''"
| "type_name (JFloat x) = ustr ''float''"
| "type_name (JStr s) = ustr ''str''"
| "type_name (JList xs) = ustr ''list''"
| "type_name (JDict kvs) = ustr ''dict''"

text \<open>\<^verbatim>\<open>d.get(k, default)\<close> on a dict.\<close>

definition dict_get :: "(pystr \<times> json) list \<Rightarrow> pystr \<Rightarrow> json \<Rightarrow> json" where
  "dict_get d k dflt = (case map_of d k of None \<Rightarrow> dflt | Some v \<Rightarrow> v)"

text \<open>
  \<^verbatim>\<open>v.get(k, default)\<close> on any value: only a dict has the method, the others raise
  \<^verbatim>\<open>AttributeError\<close>.
\<close>

definition json_get :: "json \<Rightarrow> pystr \<Rightarrow> json \<Rightarrow> pyerr + json" where
  "json_get v k dflt =
     (case v of
        JDict d \<Rightarrow> Inr (dict_get d k dflt)
      | _ \<Rightarrow> Inl (AttributeError
                 ([39] @ type_name v @ [39] @ ustr '' object has no attribute ''
                  @ [39] @ ustr ''get'' @ [39])))"

text \<open>
  \<^verbatim>\<open>for it in v\<close>: the elements of a list, the keys of a dict, the characters of a
  string; the other values raise \<^verbatim>\<open>TypeError\<close>.
\<close>

definition iterate :: "json \<Rightarrow> pyerr + json list" where
  "iterate v =
     (case v of
        JList xs \<Rightarrow> Inr xs
      | JDict d \<Rightarrow> Inr (map (\<lambda>(k, x). JStr k) d)
      | JStr s \<Rightarrow> Inr (map (\<lambda>c. JStr [c]) s)
      | _ \<Rightarrow> Inl (TypeError ([39] @ type_name v @ [39] @ ustr '' object is not iterable'')))"

text \<open>
  \<^verbatim>\<open>int(s)\<close> on a string, \<open>None\<close> for \<^verbatim>\<open>ValueError\<close>: the preparation of \<^verbatim>\<open>float\<close>, an
  optional sign and decimal digits, at most 4300 of them.
\<close>

definition py_int_str :: "pystr \<Rightarrow> int option" where
  "py_int_str s =
     (let t = literal_text s
      in if \<not> underscores_ok 0 t then None
         else (case filter (\<lambda>c. c \<noteq> 95) t of
                 [] \<Rightarrow> None
               | c # u \<Rightarrow>
                   (let ds = (if c = 45 \<or> c = 43 then u else c # u)
                    in if ds = [] \<or> \<not> list_all ascii_digit ds \<or> 4300 < length ds then None
                       else Some (if c = 45 then - int (digits_value ds)
                                  else int (digits_value ds)))))"

text \<open>
  \<^verbatim>\<open>int(v)\<close>, \<open>None\<close> for any exception: a float is cut towards zero, infinities and NaN
  raise, and so do \<^verbatim>\<open>None\<close>, lists and dicts.
\<close>

definition py_int :: "json \<Rightarrow> int option" where
  "py_int v =
     (case v of
        JBool b \<Rightarrow> Some (if b then 1 else 0)
      | JInt i \<Rightarrow> Some i
      | JFloat (Fin q) \<Rightarrow> Some (if 0 \<le> q then \<lfloor>q\<rfloor> else \<lceil>q\<rceil>)
      | JStr s \<Rightarrow> py_int_str s
      | _ \<Rightarrow> None)"

text \<open>\<^verbatim>\<open>float(v)\<close>, \<open>None\<close> for any exception.\<close>

definition py_float :: "json \<Rightarrow> pyfloat option" where
  "py_float v =
     (case v of
        JBool b \<Rightarrow> Some (Fin (if b then 1 else 0))
      | JInt i \<Rightarrow> (case float_of_int i of Inl e \<Rightarrow> None | Inr x \<Rightarrow> Some x)
      | JFloat x \<Rightarrow> Some x
      | JStr s \<Rightarrow> py_float_str s
      | _ \<Rightarrow> None)"

text \<open>\<^verbatim>\<open>x * y\<close>, \<^verbatim>\<open>x <= 0\<close> and \<^verbatim>\<open>x > 0\<close> on floats.\<close>

fun fmul :: "pyfloat \<Rightarrow> pyfloat \<Rightarrow> pyfloat" where
  "fmul (Fin a) (Fin b) = round_binary64 (a * b)"
| "fmul NaN _ = NaN"
| "fmul _ NaN = NaN"
| "fmul (Fin a) PInf = (if a = 0 then NaN else if 0 < a then PInf else NInf)"
| "fmul (Fin a) NInf = (if a = 0 then NaN else if 0 < a then NInf else PInf)"
| "fmul PInf (Fin b) = (if b = 0 then NaN else if 0 < b then PInf else NInf)"
| "fmul NInf (Fin b) = (if b = 0 then NaN else if 0 < b then NInf else PInf)"
| "fmul PInf PInf = PInf"
| "fmul NInf NInf = PInf"
| "fmul PInf NInf = NInf"
| "fmul NInf PInf = NInf"

fun fle0 :: "pyfloat \<Rightarrow> bool" where
  "fle0 (Fin a) = (a \<le> 0)"
| "fle0 NInf = True"
| "fle0 PInf = False"
| "fle0 NaN = False"

fun fgt0 :: "pyfloat \<Rightarrow> bool" where
  "fgt0 (Fin a) = (0 < a)"
| "fgt0 PInf = True"
| "fgt0 NInf = False"
| "fgt0 NaN = False"

text \<open>The argument \<^verbatim>\<open>parse_number\<close> sees in a value; \<open>str_of\<close> is \<^verbatim>\<open>str\<close> on lists and dicts.\<close>

definition pyval_of :: "(json \<Rightarrow> pystr) \<Rightarrow> json \<Rightarrow> pyval" where
  "pyval_of str_of v =
     (case v of
        JNull \<Rightarrow> VNone
      | JBool b \<Rightarrow> VBool b
      | JInt i \<Rightarrow> VInt i
      | JFloat x \<Rightarrow> VFloat x
      | JStr s \<Rightarrow> VStr s
      | _ \<Rightarrow> VOther (str_of v))"

section \<open>JSON decoder\<close>

text \<open>
  \<^verbatim>\<open>json.loads\<close> on a string, as the decoder of CPython 3.11 reads it.  White space is
  the space, the tab, the line feed and the carriage return.
\<close>

definition json_ws :: "nat \<Rightarrow> bool" where
  "json_ws c = (c = 32 \<or> c = 9 \<or> c = 10 \<or> c = 13)"

definition skip_ws :: "pystr \<Rightarrow> pystr" where
  "skip_ws s = dropWhile json_ws s"

text \<open>The value of a hexadecimal digit, and of four of them.\<close>

definition hex_val :: "nat \<Rightarrow> nat option" where
  "hex_val c =
     (if 48 \<le> c \<and> c \<le> 57 then Some (c - 48)
      else if 97 \<le> c \<and> c \<le> 102 then Some (c - 87)
      else if 65 \<le> c \<and> c \<le> 70 then Some (c - 55)
      else None)"

definition hex4 :: "pystr \<Rightarrow> nat option" where
  "hex4 s =
     (case map hex_val (take 4 s) of
        [Some a, Some b, Some c, Some d] \<Rightarrow> Some (((a * 16 + b) * 16 + c) * 16 + d)
      | _ \<Rightarrow> None)"

text \<open>
  The characters of a string literal after its opening quote, up to the closing quote:
  the decoded string and what follows the literal.  A control character raises, and so
  do an unknown escape and a \<^verbatim>\<open>\u\<close> that four hexadecimal digits and one more character do
  not follow.  A high surrogate followed by the escape of a low surrogate, and then by
  one more character at least, makes one code point with it.
\<close>

fun scanstring :: "pystr \<Rightarrow> pystr \<Rightarrow> (pystr \<times> pystr) option" where
  "scanstring acc [] = None"
| "scanstring acc [c] = (if c = 34 then Some (acc, []) else None)"
| "scanstring acc (c # e # r) =
     (if c = 34 then Some (acc, e # r)
      else if c = 92 then
        (if e = 117 then
           (if length r < 5 then None
            else (case hex4 r of
                    None \<Rightarrow> None
                  | Some u \<Rightarrow>
                      (let r4 = drop 4 r
                       in if 55296 \<le> u \<and> u \<le> 56319 \<and> 6 < length r4
                             \<and> take 2 r4 = [92, 117]
                          then (case hex4 (drop 2 r4) of
                                  None \<Rightarrow> None
                                | Some v \<Rightarrow>
                                    if 56320 \<le> v \<and> v \<le> 57343
                                    then scanstring
                                           (acc @ [65536 + (u - 55296) * 1024 + (v - 56320)])
                                           (drop 6 r4)
                                    else scanstring (acc @ [u]) r4)
                          else scanstring (acc @ [u]) r4)))
         else if e = 34 \<or> e = 92 \<or> e = 47 then scanstring (acc @ [e]) r
         else if e = 98 then scanstring (acc @ [8]) r
         else if e = 102 then scanstring (acc @ [12]) r
         else if e = 110 then scanstring (acc @ [10]) r
         else if e = 114 then scanstring (acc @ [13]) r
         else if e = 116 then scanstring (acc @ [9]) r
         else None)
      else if c \<le> 31 then None
      else scanstring (acc @ [c]) (e # r))"

text \<open>
  A number at the start of the text: an optional minus, the integer part (a zero alone,
  or digits that do not start with a zero), a fraction if a dot and a digit follow, an
  exponent if \<^verbatim>\<open>e\<close> or \<^verbatim>\<open>E\<close>, an optional sign and a digit follow.  With a fraction or an
  exponent the text goes to \<^verbatim>\<open>float\<close>, otherwise it is an integer, which raises beyond
  4300 digits.
\<close>

definition match_number :: "pystr \<Rightarrow> (json \<times> pystr) option" where
  "match_number s =
     (let neg = (s \<noteq> [] \<and> hd s = 45);
          t = (if neg then tl s else s);
          ip = (if t \<noteq> [] \<and> hd t = 48 then [48]
                else if t \<noteq> [] \<and> 49 \<le> hd t \<and> hd t \<le> 57 then takeWhile ascii_digit t
                else []);
          r1 = drop (length ip) t;
          frac = (case r1 of
                    c # d # u \<Rightarrow> if c = 46 \<and> ascii_digit d then c # takeWhile ascii_digit (d # u)
                                 else []
                  | _ \<Rightarrow> []);
          r2 = drop (length frac) r1;
          sgn = (case r2 of
                   c # d # u \<Rightarrow> if (c = 101 \<or> c = 69) \<and> (d = 45 \<or> d = 43) \<and> u \<noteq> [] then [d]
                                else []
                 | _ \<Rightarrow> []);
          eds = (case r2 of
                   c # u \<Rightarrow> if (c = 101 \<or> c = 69) \<and> u \<noteq> []
                            then takeWhile ascii_digit (drop (length sgn) u) else []
                 | _ \<Rightarrow> []);
          ex = (if eds = [] then [] else hd r2 # sgn @ eds);
          rest = drop (length ex) r2
      in if ip = [] then None
         else if frac = [] \<and> ex = [] then
           (if 4300 < length ip then None
            else Some (JInt (if neg then - int (digits_value ip) else int (digits_value ip)),
                       rest))
         else (case py_float_str ((if neg then [45] else []) @ ip @ frac @ ex) of
                 None \<Rightarrow> None
               | Some x \<Rightarrow> Some (JFloat x, rest)))"

text \<open>\<^verbatim>\<open>d[key] = val\<close> on a dict: a key that is there keeps its place.\<close>

fun dict_set :: "pystr \<Rightarrow> json \<Rightarrow> (pystr \<times> json) list \<Rightarrow> (pystr \<times> json) list" where
  "dict_set k v [] = [(k, v)]"
| "dict_set k v ((k', v') # kvs) =
     (if k = k' then (k, v) # kvs else (k', v') # dict_set k v kvs)"

text \<open>
  The scanner: one value at the start of the text, with what follows it.  \<open>depth\<close> is
  the number of nested objects and arrays that the recursion limit of the interpreter
  still allows, and beyond it the decoder raises \<^verbatim>\<open>RecursionError\<close>.  The first argument
  bounds the number of calls; it starts above the length of the text, and each call
  consumes a character, so it never runs out.  \<open>obj_loop\<close> and \<open>arr_loop\<close> are the loops over
  the members of an object and the elements of an array, from the point where the next
  key or the next element is due.
\<close>

fun scan_once :: "nat \<Rightarrow> nat \<Rightarrow> pystr \<Rightarrow> (json \<times> pystr) option"
  and obj_loop :: "nat \<Rightarrow> nat \<Rightarrow> (pystr \<times> json) list \<Rightarrow> pystr \<Rightarrow> (json \<times> pystr) option"
  and arr_loop :: "nat \<Rightarrow> nat \<Rightarrow> json list \<Rightarrow> pystr \<Rightarrow> (json \<times> pystr) option" where
  "scan_once 0 depth s = None"
| "scan_once (Suc n) depth s =
     (case s of
        [] \<Rightarrow> None
      | c # cs \<Rightarrow>
          if c = 34 then
            (case scanstring [] cs of
               None \<Rightarrow> None
             | Some (str, rest) \<Rightarrow> Some (JStr str, rest))
          else if c = 123 then
            (if depth = 0 then None
             else (case skip_ws cs of
                     [] \<Rightarrow> None
                   | x # xs \<Rightarrow> if x = 125 then Some (JDict [], xs)
                               else obj_loop n (depth - 1) [] (x # xs)))
          else if c = 91 then
            (if depth = 0 then None
             else (case skip_ws cs of
                     [] \<Rightarrow> None
                   | x # xs \<Rightarrow> if x = 93 then Some (JList [], xs)
                               else arr_loop n (depth - 1) [] (x # xs)))
          else if take 4 s = ustr ''null'' then Some (JNull, drop 4 s)
          else if take 4 s = ustr ''true'' then Some (JBool True, drop 4 s)
          else if take 5 s = ustr ''false'' then Some (JBool False, drop 5 s)
          else if take 3 s = ustr ''NaN'' then Some (JFloat NaN, drop 3 s)
          else if take 8 s = ustr ''Infinity'' then Some (JFloat PInf, drop 8 s)
          else if take 9 s = ustr ''-Infinity'' then Some (JFloat NInf, drop 9 s)
          else match_number s)"
| "obj_loop 0 depth acc s = None"
| "obj_loop (Suc n) depth acc s =
     (case s of
        [] \<Rightarrow> None
      | q # cs \<Rightarrow>
          if q \<noteq> 34 then None
          else (case scanstring [] cs of
                  None \<Rightarrow> None
                | Some (key, r1) \<Rightarrow>
                    (case skip_ws r1 of
                       [] \<Rightarrow> None
                     | colon # r2 \<Rightarrow>
                         if colon \<noteq> 58 then None
                         else (case scan_once n depth (skip_ws r2) of
                                 None \<Rightarrow> None
                               | Some (val, r3) \<Rightarrow>
                                   (case skip_ws r3 of
                                      [] \<Rightarrow> None
                                    | x # r4 \<Rightarrow>
                                        if x = 125 then Some (JDict (dict_set key val acc), r4)
                                        else if x = 44
                                        then obj_loop n depth (dict_set key val acc) (skip_ws r4)
                                        else None)))))"
| "arr_loop 0 depth acc s = None"
| "arr_loop (Suc n) depth acc s =
     (case scan_once n depth s of
        None \<Rightarrow> None
      | Some (val, r1) \<Rightarrow>
          (case skip_ws r1 of
             [] \<Rightarrow> None
           | x # r2 \<Rightarrow>
               if x = 93 then Some (JList (acc @ [val]), r2)
               else if x = 44 then arr_loop n depth (acc @ [val]) (skip_ws r2)
               else None))"


section \<open>JSON extractor\<close>

text \<open>
  \<^verbatim>\<open>re.search(r'\{[\s\S]*\}', text)\<close>: from the first opening brace to the last closing
  brace after it, if there is one.
\<close>

definition brace_region :: "pystr \<Rightarrow> pystr option" where
  "brace_region text =
     (case dropWhile (\<lambda>c. c \<noteq> 123) text of
        [] \<Rightarrow> None
      | b # rest \<Rightarrow>
          (case dropWhile (\<lambda>c. c \<noteq> 125) (rev rest) of
             [] \<Rightarrow> None
           | e # inner \<Rightarrow> Some (b # rev inner @ [e])))"

text \<open>
  \<^verbatim>\<open>re.sub(r',\s*X', 'X', s)\<close> for a closing character \<open>X\<close>: from left to right, a comma
  that only white space separates from \<open>X\<close> goes away together with that white space.
\<close>

function drop_trailing_commas :: "nat \<Rightarrow> pystr \<Rightarrow> pystr" where
  "drop_trailing_commas x [] = []"
| "drop_trailing_commas x (c # cs) =
     (if c = 44 then
        (case dropWhile is_space cs of
           [] \<Rightarrow> c # drop_trailing_commas x cs
         | d # r \<Rightarrow> if d = x then d # drop_trailing_commas x r
                    else c # drop_trailing_commas x cs)
      else c # drop_trailing_commas x cs)"
  by pat_completeness auto

termination
proof (relation "measure (\<lambda>(x, s). length s)")
  fix x :: nat and c :: nat and cs d r
  assume "dropWhile is_space cs = d # r"
  then have "length (d # r) \<le> length cs"
    using length_dropWhile_le[of is_space cs] by simp
  then show "((x, r), (x, c # cs)) \<in> measure (\<lambda>(x, s). length s)" by simp
qed simp_all

text \<open>The repair: single quotes become double quotes, then the two substitutions.\<close>

definition repair :: "pystr \<Rightarrow> pystr" where
  "repair s =
     drop_trailing_commas 93
       (drop_trailing_commas 125 (map (\<lambda>c. if c = 39 then 34 else c) s))"

text \<open>
  \<^verbatim>\<open>extract_json_from_text\<close>.  \<open>loads\<close> stands for \<^verbatim>\<open>json.loads\<close>, \<open>None\<close> for any exception
  it raises; the result \<open>JNull\<close> is \<^verbatim>\<open>None\<close>.
\<close>

definition extract_json_from_text :: "(pystr \<Rightarrow> json option) \<Rightarrow> pystr \<Rightarrow> json" where
  "extract_json_from_text loads text =
     (if text = [] then JNull
      else (case brace_region text of
              None \<Rightarrow> JNull
            | Some s \<Rightarrow>
                (case loads s of
                   Some v \<Rightarrow> v
                 | None \<Rightarrow> (case loads (repair s) of Some v \<Rightarrow> v | None \<Rightarrow> JNull))))"

section \<open>Report normalizer and request handler\<close>

definition CATEGORY_KEYS :: "(pystr \<times> pystr) list" where
  "CATEGORY_KEYS =
     [(ustr ''vision_2030'', ustr ''Vision 2030 & Global Event Diplomacy''),
      (ustr ''financial_modeling'', ustr ''Financial Modeling''),
      (ustr ''government_relations'', ustr ''Government Relations''),
      (ustr ''global_case_stories'', ustr ''Global Case Stories''),
      (ustr ''hybrid_learning'', ustr ''Hybrid Learning'')]"

text \<open>
  What the handler hands to the template: the items, the categories and the report.
  The name and the specs of an item are whatever values the response holds; a price and
  a subtotal are floats on the normal path and the integer 0 on the failure path.
\<close>

record item =
  it_name :: json
  it_specs :: json
  it_quantity :: int
  it_price :: json

record category =
  cat_key :: pystr
  cat_title :: pystr
  cat_items :: "item list"
  cat_subtotal :: json

record report =
  rp_product_name :: pystr
  rp_place :: pystr
  rp_currency :: pystr
  rp_categories :: "category list"
  rp_grand_total :: pyfloat
  rp_raw_model_data :: json
  rp_error :: "pystr option"

text \<open>
  The quantity of an item \<open>d\<close>: \<^verbatim>\<open>int(qty_raw)\<close> under its \<^verbatim>\<open>try\<close>, 1 when it raises or is
  not positive.  Its price \<^verbatim>\<open>price_num\<close> and the amount \<^verbatim>\<open>price_num * qty\<close>, which are not
  guarded: \<^verbatim>\<open>parse_number\<close> may raise, and so may the conversion of the quantity to a
  float for the product.
\<close>

definition item_quantity :: "(pystr \<times> json) list \<Rightarrow> int" where
  "item_quantity d =
     (case py_int (dict_get d (ustr ''quantity'') (JInt 1)) of
        None \<Rightarrow> 1
      | Some q \<Rightarrow> if q \<le> 0 then 1 else q)"

definition item_price :: "(json \<Rightarrow> pystr) \<Rightarrow> (pystr \<times> json) list \<Rightarrow> pyerr + pyfloat" where
  "item_price str_of d = parse_number (pyval_of str_of (dict_get d (ustr ''price'') (JInt 0)))"


text \<open>
  The body of \<^verbatim>\<open>for it in items\<close> on one element that is a dict \<open>d\<close>, from the running
  list and sum to the next ones.
\<close>

definition normalize_item ::
  "(json \<Rightarrow> pystr) \<Rightarrow> (pystr \<times> json) list \<Rightarrow> item list \<times> pyfloat
     \<Rightarrow> pyerr + (item list \<times> pyfloat)" where
  "normalize_item str_of d acc =
     (let name_raw = dict_get d (ustr ''name'') (JStr []);
          name = (if truthy name_raw then name_raw else JStr (str_of name_raw));
          specs_raw = dict_get d (ustr ''specs'') (JStr []);
          specs = (if truthy specs_raw then specs_raw else JStr []);
          qty = item_quantity d
      in case item_price str_of d of
           Inl e \<Rightarrow> Inl e
         | Inr price_num \<Rightarrow>
             (case float_of_int qty of
                Inl e \<Rightarrow> Inl e
              | Inr q \<Rightarrow>
                  Inr (fst acc @ [\<lparr>it_name = name, it_specs = specs, it_quantity = qty,
                                   it_price = JFloat (fround2 price_num)\<rparr>],
                       fadd (snd acc) (fmul price_num q))))"

fun normalize_items ::
  "(json \<Rightarrow> pystr) \<Rightarrow> json list \<Rightarrow> item list \<times> pyfloat \<Rightarrow> pyerr + (item list \<times> pyfloat)" where
  "normalize_items str_of [] acc = Inr acc"
| "normalize_items str_of (it # its) acc =
     (case it of
        JDict d \<Rightarrow>
          (case normalize_item str_of d acc of
             Inl e \<Rightarrow> Inl e
           | Inr acc' \<Rightarrow> normalize_items str_of its acc')
      | _ \<Rightarrow> normalize_items str_of its acc)"


text \<open>
  The items and the subtotal read from a category block: those of the block when it is
  a dict, the empty list and 0 otherwise.
\<close>

definition block_items :: "json \<Rightarrow> json" where
  "block_items cat_block =
     (case cat_block of JDict d \<Rightarrow> dict_get d (ustr ''items'') (JList []) | _ \<Rightarrow> JList [])"

definition block_subtotal :: "json \<Rightarrow> json" where
  "block_subtotal cat_block =
     (case cat_block of JDict d \<Rightarrow> dict_get d (ustr ''subtotal'') (JInt 0) | _ \<Rightarrow> JInt 0)"

text \<open>
  \<^verbatim>\<open>subtotal_num\<close>: the float of the subtotal of the response, unless \<^verbatim>\<open>float\<close> raises or the
  float is at most 0, when it is the computed sum rounded to two decimals.
\<close>

definition resolve_subtotal :: "json \<Rightarrow> pyfloat \<Rightarrow> pyfloat" where
  "resolve_subtotal subtotal computed_sub =
     (case py_float subtotal of
        None \<Rightarrow> fround2 computed_sub
      | Some x \<Rightarrow> if fle0 x then fround2 computed_sub else x)"

text \<open>
  The body of \<^verbatim>\<open>for key, pretty in CATEGORY_KEYS\<close>: the category and the value
  \<^verbatim>\<open>subtotal_num\<close> that is added to the grand total.
\<close>

definition normalize_category ::
  "(json \<Rightarrow> pystr) \<Rightarrow> json \<Rightarrow> pystr \<Rightarrow> pystr \<Rightarrow> pyerr + (category \<times> pyfloat)" where
  "normalize_category str_of data key pretty =
     (case json_get data key (JDict []) of
        Inl e \<Rightarrow> Inl e
      | Inr cat_block \<Rightarrow>
          (case iterate (block_items cat_block) of
             Inl e \<Rightarrow> Inl e
           | Inr its \<Rightarrow>
               (case normalize_items str_of its ([], Fin 0) of
                  Inl e \<Rightarrow> Inl e
                | Inr (normalized_items, computed_sub) \<Rightarrow>
                    (let subtotal_num = resolve_subtotal (block_subtotal cat_block) computed_sub
                     in Inr (\<lparr>cat_key = key, cat_title = pretty,
                               cat_items = normalized_items,
                               cat_subtotal = JFloat (fround2 subtotal_num)\<rparr>,
                             subtotal_num)))))"

fun normalize_categories ::
  "(json \<Rightarrow> pystr) \<Rightarrow> json \<Rightarrow> (pystr \<times> pystr) list \<Rightarrow> category list \<times> pyfloat
     \<Rightarrow> pyerr + (category list \<times> pyfloat)" where
  "normalize_categories str_of data [] acc = Inr acc"
| "normalize_categories str_of data ((key, pretty) # keys) acc =
     (case normalize_category str_of data key pretty of
        Inl e \<Rightarrow> Inl e
      | Inr (cat, subtotal_num) \<Rightarrow>
          normalize_categories str_of data keys (fst acc @ [cat], fadd (snd acc) subtotal_num))"

text \<open>
  The normalizer: the loop over the categories, the rounding of the grand total and the
  preference for a positive \<^verbatim>\<open>grand_total\<close> of the response that is an \<^verbatim>\<open>int\<close> or a
  \<^verbatim>\<open>float\<close>.
\<close>

definition is_number :: "json \<Rightarrow> bool" where
  "is_number v = (case v of JBool b \<Rightarrow> True | JInt i \<Rightarrow> True | JFloat x \<Rightarrow> True | _ \<Rightarrow> False)"

definition positive :: "json \<Rightarrow> bool" where
  "positive v =
     (case v of JBool b \<Rightarrow> b | JInt i \<Rightarrow> 0 < i | JFloat x \<Rightarrow> fgt0 x | _ \<Rightarrow> False)"

definition normalize :: "(json \<Rightarrow> pystr) \<Rightarrow> json \<Rightarrow> pyerr + (category list \<times> pyfloat)" where
  "normalize str_of data =
     (case normalize_categories str_of data CATEGORY_KEYS ([], Fin 0) of
        Inl e \<Rightarrow> Inl e
      | Inr (categories, computed_total) \<Rightarrow>
          (case json_get data (ustr ''grand_total'') JNull of
             Inl e \<Rightarrow> Inl e
           | Inr g \<Rightarrow>
               if is_number g \<and> positive g then
                 (case parse_number (pyval_of str_of g) of
                    Inl e \<Rightarrow> Inl e
                  | Inr model_total \<Rightarrow> Inr (categories, fround2 model_total))
               else Inr (categories, fround2 computed_total)))"

text \<open>The dict the handler falls back to when no JSON was extracted.\<close>

definition empty_block :: json where
  "empty_block = JDict [(ustr ''items'', JList []), (ustr ''subtotal'', JInt 0)]"

definition fallback_data :: "pystr \<Rightarrow> pystr \<Rightarrow> json" where
  "fallback_data product_name currency_code =
     JDict [(ustr ''product'', JStr product_name),
            (ustr ''currency'', JStr currency_code),
            (ustr ''vision_2030'', empty_block),
            (ustr ''financial_modeling'', empty_block),
            (ustr ''government_relations'', empty_block),
            (ustr ''global_case_stories'', empty_block),
            (ustr ''hybrid_learning'', empty_block),
            (ustr ''grand_total'', JInt 0)]"

text \<open>
  The \<^verbatim>\<open>try\<close> block of \<^verbatim>\<open>results\<close>.  \<open>api_key\<close> says whether \<^verbatim>\<open>GOOGLE_API_KEY\<close> is set and not
  empty.  \<open>r1\<close> is the outcome of the first call of the model, the text of the response or
  the exception raised on the way, and \<open>r2\<close> that of the follow-up call, which is made
  only when the first text yields no data.
\<close>

definition try_block ::
  "(json \<Rightarrow> pystr) \<Rightarrow> (pystr \<Rightarrow> json option) \<Rightarrow> bool \<Rightarrow> pystr \<Rightarrow> pystr
     \<Rightarrow> pyerr + pystr \<Rightarrow> pyerr + pystr \<Rightarrow> pyerr + (category list \<times> pyfloat \<times> json)" where
  "try_block str_of loads api_key product_name currency_code r1 r2 =
     (if \<not> api_key
      then Inl (RuntimeError (ustr ''GOOGLE_API_KEY is not configured in the environment.''))
      else (case r1 of
              Inl e \<Rightarrow> Inl e
            | Inr text \<Rightarrow>
                (let data1 = extract_json_from_text loads text;
                     found = (if truthy data1 then Inr data1
                              else (case r2 of
                                      Inl e \<Rightarrow> Inl e
                                    | Inr text2 \<Rightarrow> Inr (extract_json_from_text loads text2)))
                 in case found of
                      Inl e \<Rightarrow> Inl e
                    | Inr data2 \<Rightarrow>
                        (let data = (if truthy data2 then data2
                                     else fallback_data product_name currency_code)
                         in case normalize str_of data of
                              Inl e \<Rightarrow> Inl e
                            | Inr (categories, grand_total) \<Rightarrow>
                                Inr (categories, grand_total, data)))))"

text \<open>The report of the \<^verbatim>\<open>except\<close> branch, for the exception \<open>e\<close>.\<close>

definition error_block :: "pystr \<Rightarrow> (pystr \<times> item list) list" where
  "error_block msg =
     [(ustr ''vision_2030'',
       [\<lparr>it_name = JStr (ustr ''Error''), it_specs = JStr msg, it_quantity = 1,
         it_price = JInt 0\<rparr>]),
      (ustr ''financial_modeling'', []),
      (ustr ''government_relations'', []),
      (ustr ''global_case_stories'', []),
      (ustr ''hybrid_learning'', [])]"

definition item_json :: "item \<Rightarrow> json" where
  "item_json it =
     JDict [(ustr ''name'', it_name it), (ustr ''specs'', it_specs it),
            (ustr ''quantity'', JInt (it_quantity it)), (ustr ''price'', it_price it)]"

definition error_data :: "pystr \<Rightarrow> pystr \<Rightarrow> pystr \<Rightarrow> json" where
  "error_data product_name currency_code msg =
     JDict ([(ustr ''product'', JStr (if product_name = [] then ustr ''Unknown'' else product_name)),
             (ustr ''currency'', JStr currency_code)]
            @ map (\<lambda>(key, its).
                     (key, JDict [(ustr ''items'', JList (map item_json its)),
                                  (ustr ''subtotal'', JInt 0)]))
                (error_block msg)
            @ [(ustr ''grand_total'', JInt 0)])"

definition categories_fallback :: "pystr \<Rightarrow> category list" where
  "categories_fallback msg =
     map (\<lambda>(key, pretty).
            \<lparr>cat_key = key, cat_title = pretty,
             cat_items = (case map_of (error_block msg) key of None \<Rightarrow> [] | Some its \<Rightarrow> its),
             cat_subtotal = JInt 0\<rparr>)
       CATEGORY_KEYS"

text \<open>
  \<^verbatim>\<open>results\<close>, from the three fields of the form to the values handed to the template.
  Rendering the template is outside the model.
\<close>

definition results ::
  "(json \<Rightarrow> pystr) \<Rightarrow> (pystr \<Rightarrow> json option) \<Rightarrow> bool \<Rightarrow> pystr \<Rightarrow> pystr \<Rightarrow> pystr
     \<Rightarrow> pyerr + pystr \<Rightarrow> pyerr + pystr \<Rightarrow> report" where
  "results str_of loads api_key form_product_name form_product form_place r1 r2 =
     (let product_name = (if strip form_product_name \<noteq> [] then strip form_product_name
                          else strip form_product);
          place = strip form_place;
          currency_code = detect_currency_code place
      in case try_block str_of loads api_key product_name currency_code r1 r2 of
           Inr (categories, grand_total, data) \<Rightarrow>
             \<lparr>rp_product_name = product_name, rp_place = place, rp_currency = currency_code,
              rp_categories = categories, rp_grand_total = grand_total,
              rp_raw_model_data = data, rp_error = None\<rparr>
         | Inl e \<Rightarrow>
             \<lparr>rp_product_name = product_name, rp_place = place, rp_currency = currency_code,
              rp_categories = categories_fallback (err_str e), rp_grand_total = Fin 0,
              rp_raw_model_data = error_data product_name currency_code (err_str e),
              rp_error = Some (err_str e)\<rparr>)"

section \<open>Facts about strings\<close>

lemma contains_iff: "contains k p \<longleftrightarrow> (\<exists>pre suf. p = pre @ k @ suf)"
proof (induction p)
  case Nil
  show ?case by auto
next
  case (Cons c cs)
  show ?case
  proof
    assume "contains k (c # cs)"
    then consider "prefix k (c # cs)" | "contains k cs" by auto
    then show "\<exists>pre suf. c # cs = pre @ k @ suf"
    proof cases
      case 1
      then obtain suf where "c # cs = k @ suf" by (auto simp: prefix_def)
      then have "c # cs = [] @ k @ suf" by simp
      then show ?thesis by blast
    next
      case 2
      with Cons.IH obtain pre suf where "cs = pre @ k @ suf" by blast
      then have "c # cs = (c # pre) @ k @ suf" by simp
      then show ?thesis by blast
    qed
  next
    assume "\<exists>pre suf. c # cs = pre @ k @ suf"
    then obtain pre suf where eq: "c # cs = pre @ k @ suf" by blast
    show "contains k (c # cs)"
    proof (cases pre)
      case Nil
      with eq have "prefix k (c # cs)" by (simp add: prefix_def)
      then show ?thesis by simp
    next
      case (Cons d pre')
      with eq have "cs = pre' @ k @ suf" by simp
      with Cons.IH have "contains k cs" by blast
      then show ?thesis by simp
    qed
  qed
qed

section \<open>Currency detector: properties\<close>

lemma detect_loop_find:
  "detect_loop kvs p =
     (case find (\<lambda>(k, v). contains k p) kvs of None \<Rightarrow> ustr ''USD'' | Some (k, v) \<Rightarrow> v)"
  by (induction kvs p rule: detect_loop.induct) simp_all

lemma no_key_in_empty: "find (\<lambda>(k, v). k = []) CURRENCY_MAP = None"
  by (simp add: CURRENCY_MAP_def ustr_def)

lemma detect_general:
  "detect_currency_code place =
     (case find (\<lambda>(k, v). contains k (lower (strip place))) CURRENCY_MAP of
        None \<Rightarrow> ustr ''USD'' | Some (k, v) \<Rightarrow> v)"
proof (cases "place = []")
  case True
  then show ?thesis
    by (simp add: detect_currency_code_def strip_def lower_def no_key_in_empty)
next
  case False
  then show ?thesis
    by (simp add: detect_currency_code_def detect_loop_find)
qed

lemma detect_mumbai: "detect_currency_code (ustr ''Mumbai, India'') = ustr ''INR''"
  by (simp add: detect_currency_code_def CURRENCY_MAP_def ustr_def strip_def lower_def
      lower_cp_def is_space_def)

lemma detect_empty: "detect_currency_code (ustr '''') = ustr ''USD''"
  by (simp add: detect_currency_code_def ustr_def)

lemma detect_random_town: "detect_currency_code (ustr ''Random Town'') = ustr ''USD''"
  by (simp add: detect_currency_code_def CURRENCY_MAP_def ustr_def strip_def lower_def
      lower_cp_def is_space_def)

text \<open>
  C6.  The detector returns \<^verbatim>\<open>"USD"\<close> for the empty input; otherwise it trims and
  lower-cases the input, tests each key of the table for containment in it in the table's
  insertion order, and returns the code of the first key contained, or \<^verbatim>\<open>"USD"\<close> when
  none is.  Since no key is contained in the empty string, both cases are one search of
  the table.  The three documented examples hold.
\<close>

theorem detect_currency_code_first_match:
  "detect_currency_code place =
     (case find (\<lambda>(k, v). contains k (lower (strip place))) CURRENCY_MAP of
        None \<Rightarrow> ustr ''USD'' | Some (k, v) \<Rightarrow> v)
   \<and> detect_currency_code (ustr ''Mumbai, India'') = ustr ''INR''
   \<and> detect_currency_code (ustr '''') = ustr ''USD''
   \<and> detect_currency_code (ustr ''Random Town'') = ustr ''USD''"
  using detect_general detect_mumbai detect_empty detect_random_town by blast

section \<open>Facts about digits and numbers\<close>

lemma nd_zero_Some: "nd_zero zs c = Some z \<Longrightarrow> z \<in> set zs \<and> z \<le> c \<and> c < z + 10"
  by (induction zs) (auto split: if_splits)

lemma is_decimal_ascii: "c < 1632 \<Longrightarrow> is_decimal c = (48 \<le> c \<and> c \<le> 57)"
  by (auto simp add: is_decimal_def nd_zeros_def)

lemma decimal_value_ascii: "48 \<le> c \<Longrightarrow> c \<le> 57 \<Longrightarrow> decimal_value c = c - 48"
  by (auto simp add: decimal_value_def nd_zeros_def)


lemma is_decimal_ge: "is_decimal c \<Longrightarrow> 48 \<le> c"
proof -
  assume "is_decimal c"
  then obtain z where z: "nd_zero nd_zeros c = Some z" by (auto simp: is_decimal_def)
  from nd_zero_Some[OF z] have "z \<in> set nd_zeros" "z \<le> c" by auto
  moreover have "\<forall>z \<in> set nd_zeros. 48 \<le> z" by (simp add: nd_zeros_def)
  ultimately show ?thesis by fastforce
qed

lemma space_not_decimal: "is_decimal c \<Longrightarrow> \<not> is_space c"
proof -
  assume "is_decimal c"
  then obtain z where z: "nd_zero nd_zeros c = Some z" by (auto simp: is_decimal_def)
  from nd_zero_Some[OF z] have "z \<in> set nd_zeros" "z \<le> c" "c < z + 10" by auto
  then show ?thesis unfolding nd_zeros_def is_space_def by auto
qed


lemma floor_numeral_div: "\<lfloor>numeral a / numeral b :: rat\<rfloor> = numeral a div numeral b"
  using floor_divide_of_int_eq[of "numeral a" "numeral b", where ?'a = rat] by simp

text \<open>The equations that evaluate the number parser on an ASCII literal.\<close>

lemma bit_length_0: "bit_length 0 = 0"
  by (simp add: bit_length.simps)

lemma bit_length_1: "bit_length (Suc 0) = 1"
  by (simp add: bit_length.simps)

lemma bit_length_numeral: "bit_length (numeral k) = Suc (bit_length (numeral k div 2))"
  by (subst bit_length.simps) simp

lemma ceiling_numeral_div:
  "\<lceil>numeral a / numeral b :: rat\<rceil> = - (- numeral a div numeral b)"
proof -
  have "\<lceil>numeral a / numeral b :: rat\<rceil> = - \<lfloor>- (numeral a / numeral b :: rat)\<rfloor>"
    by (simp add: ceiling_def)
  also have "- (numeral a / numeral b :: rat) = of_int (- numeral a) / of_int (numeral b)"
    by simp
  also have "\<lfloor>of_int (- numeral a) / of_int (numeral b) :: rat\<rfloor> = - numeral a div numeral b"
    by (rule floor_divide_of_int_eq)
  finally show ?thesis .
qed

lemmas parse_eval = parse_number_def parse_number_str_def ustr_def strip_def is_space_def
  match_range_here_def is_numch_def is_decimal_ascii is_dash_def remove_commas_def
  py_float_str_def literal_text_def to_ascii_def ascii_space_def ascii_digit_def
  unsigned_float_def unsigned_decimal_def exponent_of_def ascii_lower_def decimal_of_def
  digits_value_def round2_def round_half_even_def Let_def float_error_def floor_numeral_div
  float_of_int_def round_binary64_def binary_exponent_def pow2_def
  bit_length_0 bit_length_1 bit_length_numeral ceiling_numeral_div

section \<open>Number parser: properties\<close>

lemma range_search_nonempty: "range_search s = Some g \<Longrightarrow> s \<noteq> []"
  by (cases s) simp_all

lemma parse_number_range:
  assumes "range_search (strip s) = Some (g1, g2)"
    and "py_float_str (remove_commas g1) = Some a"
    and "py_float_str (remove_commas g2) = Some b"
  shows "parse_number (VStr s) = Inr (fround2 (fhalf (fadd a b)))"
  using assms range_search_nonempty[OF assms(1)]
  by (simp add: parse_number_def parse_number_str_def)

lemma parse_range_spaced: "parse_number (VStr (ustr ''15,000 - 18,000'')) = Inr (Fin 16500)"
  by (simp add: parse_eval)

lemma parse_range_tight: "parse_number (VStr (ustr ''15,000-18,000'')) = Inr (Fin 16500)"
  by (simp add: parse_eval)

lemma parse_dollar_1200: "parse_number (VStr (ustr ''$1,200.50'')) = Inr (Fin 1200.50)"
  by (simp add: parse_eval)

lemma parse_dollar_2500: "parse_number (VStr (ustr ''$2,500.75'')) = Inr (Fin 2500.75)"
  by (simp add: parse_eval)

lemma parse_empty: "parse_number (VStr (ustr '''')) = Inr (Fin 0)"
  by (simp add: parse_eval)

lemma parse_abc: "parse_number (VStr (ustr ''abc'')) = Inr (Fin 0)"
  by (simp add: parse_eval)

lemma parse_two_dots: "parse_number (VStr (ustr ''3.5.2'')) = Inr (Fin 0)"
  by (simp add: parse_eval)

lemma parse_none: "parse_number VNone = Inr (Fin 0)"
  by (simp add: parse_number_def)

lemma parse_int_1200: "parse_number (VInt 1200) = Inr (Fin 1200)"
  by (simp add: parse_eval)

text \<open>
  The arithmetic of the range branch is that of binary64: on \<^verbatim>\<open>"0.99-1.00"\<close> the sum of
  the two floats is halved and rounded to the float 0.99.
\<close>

lemma parse_range_cents:
  "parse_number (VStr (ustr ''0.99-1.00'')) = Inr (Fin (4458563631096791 / 4503599627370496))
   \<and> round_binary64 (99 / 100) = Fin (4458563631096791 / 4503599627370496)"
  by (simp add: parse_eval)

text \<open>
  C7.  As stated the claim fails: the range branch returns the mean of the two bounds
  rounded to two decimals, not the mean itself.  On \<^verbatim>\<open>"1-1.003"\<close> the pattern matches
  with the bounds 1 and 1.003; the float of 1.003 is \<open>4517110426252607 / 2 ^ 52\<close>, the mean
  of the two floats is not 1, and \<^verbatim>\<open>parse_number\<close> returns 1.0.
\<close>

theorem parse_number_mean_counterexample:
  "range_search (strip (ustr ''1-1.003'')) = Some (ustr ''1'', ustr ''1.003'')
   \<and> py_float_str (remove_commas (ustr ''1'')) = Some (Fin 1)
   \<and> py_float_str (remove_commas (ustr ''1.003''))
       = Some (Fin (4517110426252607 / 4503599627370496))
   \<and> parse_number (VStr (ustr ''1-1.003'')) = Inr (Fin 1)
   \<and> fhalf (fadd (Fin 1) (Fin (4517110426252607 / 4503599627370496))) \<noteq> Fin 1"
  by (simp add: parse_eval)

text \<open>
  C7, amended.  On a string in which the range pattern matches, with two bounds that
  \<^verbatim>\<open>float\<close> reads as \<open>a\<close> and \<open>b\<close> once their commas are removed, \<^verbatim>\<open>parse_number\<close> returns
  \<^verbatim>\<open>round((a + b) / 2.0, 2)\<close>: the mean of the two floats, computed in binary64 and
  rounded to two decimals; and each documented example holds:
  \<^verbatim>\<open>"15,000 - 18,000"\<close> and \<^verbatim>\<open>"15,000-18,000"\<close> give 16500.0, \<^verbatim>\<open>"$1,200.50"\<close> gives 1200.5,
  \<^verbatim>\<open>"$2,500.75"\<close> gives 2500.75, the empty string, \<^verbatim>\<open>"abc"\<close>, \<^verbatim>\<open>"3.5.2"\<close> and \<^verbatim>\<open>None\<close>
  give 0.0, and the integer 1200 gives 1200.0.
\<close>

theorem parse_number_rounded_mean_and_examples:
  "(range_search (strip s) = Some (g1, g2) \<longrightarrow>
      py_float_str (remove_commas g1) = Some a \<longrightarrow>
      py_float_str (remove_commas g2) = Some b \<longrightarrow>
      parse_number (VStr s) = Inr (fround2 (fhalf (fadd a b))))
   \<and> parse_number (VStr (ustr ''15,000 - 18,000'')) = Inr (Fin 16500)
   \<and> parse_number (VStr (ustr ''15,000-18,000'')) = Inr (Fin 16500)
   \<and> parse_number (VStr (ustr ''$1,200.50'')) = Inr (Fin 1200.50)
   \<and> parse_number (VStr (ustr ''$2,500.75'')) = Inr (Fin 2500.75)
   \<and> parse_number (VStr (ustr '''')) = Inr (Fin 0)
   \<and> parse_number (VStr (ustr ''abc'')) = Inr (Fin 0)
   \<and> parse_number (VStr (ustr ''3.5.2'')) = Inr (Fin 0)
   \<and> parse_number VNone = Inr (Fin 0)
   \<and> parse_number (VInt 1200) = Inr (Fin 1200)"
  using parse_number_range[of s g1 g2 a b] parse_range_spaced parse_range_tight
    parse_dollar_1200 parse_dollar_2500 parse_empty parse_abc parse_two_dots parse_none
    parse_int_1200
  by blast

lemma range_spaced_groups:
  "range_search (strip (ustr ''15,000 - 18,000'')) = Some (ustr ''15,000'', ustr ''18,000'')
   \<and> py_float_str (remove_commas (ustr ''15,000'')) = Some (Fin 15000)
   \<and> py_float_str (remove_commas (ustr ''18,000'')) = Some (Fin 18000)"
  by (simp add: parse_eval)

theorem parse_number_rounded_mean_witness:
  "range_search (strip (ustr ''15,000 - 18,000'')) = Some (ustr ''15,000'', ustr ''18,000'')
   \<and> py_float_str (remove_commas (ustr ''15,000'')) = Some (Fin 15000)
   \<and> py_float_str (remove_commas (ustr ''18,000'')) = Some (Fin 18000)
   \<and> parse_number (VStr (ustr ''15,000 - 18,000''))
       = Inr (fround2 (fhalf (fadd (Fin 15000) (Fin 18000))))"
  using range_spaced_groups
    parse_number_rounded_mean_and_examples[of "ustr ''15,000 - 18,000''" "ustr ''15,000''"
      "ustr ''18,000''" "Fin 15000" "Fin 18000"]
  by blast

lemma numch_not_space: "is_numch c \<Longrightarrow> \<not> is_space c"
  using space_not_decimal[of c] by (auto simp: is_numch_def is_space_def)

lemma endash_not_decimal: "\<not> is_decimal 8211"
  by (simp add: is_decimal_def nd_zeros_def)

lemma dash_not_numch: "is_dash d \<Longrightarrow> \<not> is_numch d"
  using is_decimal_ascii[of 45] endash_not_decimal by (auto simp: is_dash_def is_numch_def)

lemma dash_not_space: "is_dash d \<Longrightarrow> \<not> is_space d"
  by (auto simp: is_dash_def is_space_def)

lemma match_range_here_decomp:
  assumes c1: "is_decimal c1" and r1: "\<forall>x\<in>set r1. is_numch x"
    and w1: "\<forall>x\<in>set w1. is_space x" and d: "is_dash d"
    and w2: "\<forall>x\<in>set w2. is_space x"
    and c2: "is_decimal c2" and r2: "\<forall>x\<in>set r2. is_numch x"
    and post: "post = [] \<or> \<not> is_numch (hd post)"
  shows "match_range_here (c1 # r1 @ w1 @ d # w2 @ c2 # r2 @ post)
         = Some (c1 # r1, c2 # r2)"
proof -
  define tail2 where "tail2 = c2 # r2 @ post"
  define tail1 where "tail1 = w1 @ d # w2 @ tail2"
  have stop1: "takeWhile is_numch tail1 = [] \<and> dropWhile is_numch tail1 = tail1"
  proof (cases w1)
    case Nil
    with dash_not_numch[OF d] show ?thesis by (simp add: tail1_def)
  next
    case (Cons x xs)
    with w1 have "is_space x" by simp
    with numch_not_space[of x] have "\<not> is_numch x" by blast
    with Cons show ?thesis by (simp add: tail1_def)
  qed
  have t1: "takeWhile is_numch (r1 @ tail1) = r1"
    using r1 stop1 by simp
  have d1: "dropWhile is_numch (r1 @ tail1) = tail1"
    using r1 stop1 by simp
  have d2: "dropWhile is_space tail1 = d # w2 @ tail2"
    using w1 dash_not_space[OF d] by (simp add: tail1_def)
  have d3: "dropWhile is_space (w2 @ tail2) = c2 # r2 @ post"
    using w2 space_not_decimal[OF c2] by (simp add: tail2_def)
  have t2: "takeWhile is_numch (r2 @ post) = r2"
  proof (cases post)
    case Nil
    with r2 show ?thesis by simp
  next
    case (Cons y ys)
    with post have "\<not> is_numch y" by simp
    with Cons r2 show ?thesis by simp
  qed
  have "match_range_here (c1 # r1 @ tail1) = Some (c1 # r1, c2 # r2)"
    unfolding match_range_here_def using c1 c2 d by (simp add: t1 d1 d2 d3 t2)
  then show ?thesis by (simp add: tail1_def tail2_def)
qed

lemma range_search_first:
  assumes "10 \<notin> set pre"
    and "\<forall>i<length pre. match_range_here (drop i (pre @ s)) = None"
    and "match_range_here s = Some g"
  shows "range_search (pre @ s) = Some g"
  using assms
proof (induction pre)
  case Nil
  then show ?case by (cases s) (simp_all add: match_range_here_def)
next
  case (Cons p ps)
  from Cons.prems(2) have here: "match_range_here ((p # ps) @ s) = None" by force
  have later: "\<forall>i<length ps. match_range_here (drop i (ps @ s)) = None"
  proof (intro allI impI)
    fix i assume "i < length ps"
    then have "Suc i < length (p # ps)" by simp
    with Cons.prems(2) have "match_range_here (drop (Suc i) ((p # ps) @ s)) = None" by blast
    then show "match_range_here (drop i (ps @ s)) = None" by simp
  qed
  from Cons.prems(1) have "p \<noteq> 10" "10 \<notin> set ps" by auto
  with Cons.IH[OF _ later Cons.prems(3)] here show ?case by simp
qed

lemma parse_embedded_example:
  "parse_number (VStr (ustr ''around 1000-2000 total'')) = Inr (Fin 1500)"
  by (simp add: parse_eval)

text \<open>
  C10.  The range branch is meant for a range with any text before and after it: the
  pattern opens with the lazy prefix \<^verbatim>\<open>.*?\<close> and closes with \<^verbatim>\<open>.*\<close>.  But \<^verbatim>\<open>.\<close> does not
  match a line feed and the pattern is used without the flag that would make it, so a
  range that text with a line feed precedes is missed.  The string \<^verbatim>\<open>"a\n1-2"\<close> contains
  the range \<^verbatim>\<open>1-2\<close>, whose bounds have the rounded mean 1.5; \<^verbatim>\<open>parse_number\<close> takes the
  character-stripping branch, glues the digits and returns 12.0.
\<close>

theorem parse_number_range_after_line_feed:
  "match_range_here (ustr ''1-2'') = Some (ustr ''1'', ustr ''2'')
   \<and> py_float_str (remove_commas (ustr ''1'')) = Some (Fin 1)
   \<and> py_float_str (remove_commas (ustr ''2'')) = Some (Fin 2)
   \<and> fround2 (fhalf (fadd (Fin 1) (Fin 2))) = Fin (3 / 2)
   \<and> range_search (strip (ustr ''a'' @ [10] @ ustr ''1-2'')) = None
   \<and> parse_number (VStr (ustr ''a'' @ [10] @ ustr ''1-2'')) = Inr (Fin 12)"
  by (simp add: parse_eval)

text \<open>
  Where no line feed stands before it the first range of the string is found.  Let the
  stripped string be a prefix, a first bound (a digit followed by digits, commas and
  dots), optional white space, a hyphen or en dash, optional white space, a second bound
  of the same shape that no digit, comma or dot follows, and any rest.  If the prefix
  holds no line feed and the pattern matches at no position inside the prefix, and
  \<^verbatim>\<open>float\<close> reads both bounds as \<open>a\<close> and \<open>b\<close> once their commas are removed, then
  \<^verbatim>\<open>parse_number\<close> returns \<^verbatim>\<open>round((a + b) / 2.0, 2)\<close> whatever the prefix and the rest are:
  the character-stripping branch is not reached.
\<close>

lemma parse_number_embedded_range:
  assumes "strip s = pre @ c1 # r1 @ w1 @ d # w2 @ c2 # r2 @ post"
    and "10 \<notin> set pre"
    and "\<forall>i<length pre. match_range_here (drop i (strip s)) = None"
    and "is_decimal c1" and "\<forall>x\<in>set r1. is_numch x"
    and "\<forall>x\<in>set w1. is_space x" and "is_dash d" and "\<forall>x\<in>set w2. is_space x"
    and "is_decimal c2" and "\<forall>x\<in>set r2. is_numch x"
    and "post = [] \<or> \<not> is_numch (hd post)"
    and "py_float_str (remove_commas (c1 # r1)) = Some a"
    and "py_float_str (remove_commas (c2 # r2)) = Some b"
  shows "parse_number (VStr s) = Inr (fround2 (fhalf (fadd a b)))"
proof -
  have here: "match_range_here (c1 # r1 @ w1 @ d # w2 @ c2 # r2 @ post)
              = Some (c1 # r1, c2 # r2)"
    using assms(4-11) by (rule match_range_here_decomp)
  have "range_search (pre @ c1 # r1 @ w1 @ d # w2 @ c2 # r2 @ post)
        = Some (c1 # r1, c2 # r2)"
    using assms(2) assms(3)[unfolded assms(1)] here by (rule range_search_first)
  then have "range_search (strip s) = Some (c1 # r1, c2 # r2)"
    by (simp add: assms(1))
  then show ?thesis using assms(12,13) by (rule parse_number_range)
qed

lemma embedded_example_shape:
  "strip (ustr ''around 1000-2000 total'')
     = ustr ''around '' @ 49 # ustr ''000'' @ [] @ 45 # [] @ 50 # ustr ''000'' @ ustr '' total''
   \<and> 10 \<notin> set (ustr ''around '')
   \<and> is_decimal 49 \<and> (\<forall>x\<in>set (ustr ''000''). is_numch x)
   \<and> (\<forall>x\<in>set ([]::nat list). is_space x) \<and> is_dash 45
   \<and> is_decimal 50
   \<and> (ustr '' total'' = [] \<or> \<not> is_numch (hd (ustr '' total'')))
   \<and> py_float_str (remove_commas (49 # ustr ''000'')) = Some (Fin 1000)
   \<and> py_float_str (remove_commas (50 # ustr ''000'')) = Some (Fin 2000)"
  by (simp add: parse_eval)

lemma embedded_example_first:
  "\<forall>i<length (ustr ''around ''). match_range_here
      (drop i (strip (ustr ''around 1000-2000 total''))) = None"
  by (simp add: parse_eval All_less_Suc)

lemma parse_number_embedded_range_example:
  "strip (ustr ''around 1000-2000 total'')
     = ustr ''around '' @ 49 # ustr ''000'' @ [] @ 45 # [] @ 50 # ustr ''000'' @ ustr '' total''
   \<and> 10 \<notin> set (ustr ''around '')
   \<and> is_decimal 49 \<and> is_dash 45 \<and> is_decimal 50
   \<and> py_float_str (remove_commas (49 # ustr ''000'')) = Some (Fin 1000)
   \<and> py_float_str (remove_commas (50 # ustr ''000'')) = Some (Fin 2000)
   \<and> parse_number (VStr (ustr ''around 1000-2000 total''))
       = Inr (fround2 (fhalf (fadd (Fin 1000) (Fin 2000))))"
proof -
  note shape = embedded_example_shape
  have "parse_number (VStr (ustr ''around 1000-2000 total''))
        = Inr (fround2 (fhalf (fadd (Fin 1000) (Fin 2000))))"
    by (rule parse_number_embedded_range[where pre = "ustr ''around ''" and ?c1.0 = 49
          and ?r1.0 = "ustr ''000''" and ?w1.0 = "[]" and d = 45 and ?w2.0 = "[]"
          and ?c2.0 = 50 and ?r2.0 = "ustr ''000''" and post = "ustr '' total''"])
       (use shape embedded_example_first in simp_all)
  with shape show ?thesis by blast
qed


















text \<open>
  The two calls of \<^verbatim>\<open>float\<close> in the range branch stand outside the \<^verbatim>\<open>try\<close>: a bound
  with two dots raises \<^verbatim>\<open>ValueError\<close>.
\<close>

lemma parse_dotted_bound:
  "parse_number (VStr (ustr ''1.2.3-4'')) = Inl (float_error (ustr ''1.2.3''))"
  by (simp add: parse_eval)








section \<open>Report normalizer and request handler: properties\<close>

lemma round_binary64_0: "round_binary64 0 = Fin 0"
  by (simp add: round_binary64_def)

lemma float_of_int_0: "float_of_int 0 = Inr (Fin 0)"
  by (simp add: float_of_int_def round_binary64_0)

lemma fround2_0: "fround2 (Fin 0) = Fin 0"
  by (simp add: round2_def round_half_even_def round_binary64_0)






lemma empty_block_category:
  assumes "json_get data key (JDict []) = Inr empty_block"
  shows "normalize_category str_of data key pretty
   = Inr (\<lparr>cat_key = key, cat_title = pretty, cat_items = [], cat_subtotal = JFloat (Fin 0)\<rparr>,
          Fin 0)"
proof -
  have 1: "dict_get [(ustr ''items'', JList []), (ustr ''subtotal'', JInt 0)] (ustr ''items'')
             (JList []) = JList []"
    by (simp add: dict_get_def ustr_def)
  have 2: "dict_get [(ustr ''items'', JList []), (ustr ''subtotal'', JInt 0)] (ustr ''subtotal'')
             (JInt 0) = JInt 0"
    by (simp add: dict_get_def ustr_def)
  show ?thesis
    unfolding normalize_category_def assms empty_block_def
    by (simp add: 1 2 iterate_def py_float_def float_of_int_0 round2_def round_half_even_def
        round_binary64_0 Let_def block_items_def block_subtotal_def resolve_subtotal_def)
qed

lemma fallback_blocks:
  "json_get (fallback_data p c) (ustr ''vision_2030'') (JDict []) = Inr empty_block"
  "json_get (fallback_data p c) (ustr ''financial_modeling'') (JDict []) = Inr empty_block"
  "json_get (fallback_data p c) (ustr ''government_relations'') (JDict []) = Inr empty_block"
  "json_get (fallback_data p c) (ustr ''global_case_stories'') (JDict []) = Inr empty_block"
  "json_get (fallback_data p c) (ustr ''hybrid_learning'') (JDict []) = Inr empty_block"
  "json_get (fallback_data p c) (ustr ''grand_total'') JNull = Inr (JInt 0)"
  by (simp_all add: json_get_def fallback_data_def dict_get_def ustr_def)

text \<open>The normalizer on the fallback dict: five empty categories and the total 0.0.\<close>

lemma normalize_fallback:
  "normalize str_of (fallback_data p c)
   = Inr (map (\<lambda>(key, pretty). \<lparr>cat_key = key, cat_title = pretty, cat_items = [],
                                   cat_subtotal = JFloat (Fin 0)\<rparr>) CATEGORY_KEYS, Fin 0)"
proof -
  have cats: "normalize_categories str_of (fallback_data p c) CATEGORY_KEYS ([], Fin 0)
    = Inr (map (\<lambda>(key, pretty). \<lparr>cat_key = key, cat_title = pretty, cat_items = [],
                                   cat_subtotal = JFloat (Fin 0)\<rparr>) CATEGORY_KEYS, Fin 0)"
    unfolding CATEGORY_KEYS_def
    by (simp add: empty_block_category[OF fallback_blocks(1)]
        empty_block_category[OF fallback_blocks(2)] empty_block_category[OF fallback_blocks(3)]
        empty_block_category[OF fallback_blocks(4)] empty_block_category[OF fallback_blocks(5)]
        round_binary64_0)
  show ?thesis
    unfolding normalize_def cats fallback_blocks(6)
    by (simp add: is_number_def positive_def round2_def round_half_even_def round_binary64_0)
qed

lemma try_block_fallback:
  assumes "api_key" and "r1 = Inr text1" and "r2 = Inr text2"
    and "\<not> truthy (extract_json_from_text loads text1)"
    and "\<not> truthy (extract_json_from_text loads text2)"
  shows "try_block str_of loads api_key p c r1 r2
         = Inr (map (\<lambda>(key, pretty). \<lparr>cat_key = key, cat_title = pretty, cat_items = [],
                                         cat_subtotal = JFloat (Fin 0)\<rparr>) CATEGORY_KEYS,
                Fin 0, fallback_data p c)"
  using assms by (simp add: try_block_def normalize_fallback)

text \<open>
  C9.  When the key is configured, both calls of the model return a text, and the
  extraction yields nothing from either text (\<^verbatim>\<open>None\<close> or an empty value), the handler
  renders a report without an error: the five categories in their order, each with no
  item and the subtotal 0.0, and the grand total 0.0, built from the fallback dict.
\<close>

theorem results_empty_skeleton:
  assumes "api_key" and "r1 = Inr text1" and "r2 = Inr text2"
    and "\<not> truthy (extract_json_from_text loads text1)"
    and "\<not> truthy (extract_json_from_text loads text2)"
  shows "rp_categories (results str_of loads api_key f1 f2 f3 r1 r2)
         = [\<lparr>cat_key = ustr ''vision_2030'',
              cat_title = ustr ''Vision 2030 & Global Event Diplomacy'',
              cat_items = [], cat_subtotal = JFloat (Fin 0)\<rparr>,
            \<lparr>cat_key = ustr ''financial_modeling'', cat_title = ustr ''Financial Modeling'',
              cat_items = [], cat_subtotal = JFloat (Fin 0)\<rparr>,
            \<lparr>cat_key = ustr ''government_relations'', cat_title = ustr ''Government Relations'',
              cat_items = [], cat_subtotal = JFloat (Fin 0)\<rparr>,
            \<lparr>cat_key = ustr ''global_case_stories'', cat_title = ustr ''Global Case Stories'',
              cat_items = [], cat_subtotal = JFloat (Fin 0)\<rparr>,
            \<lparr>cat_key = ustr ''hybrid_learning'', cat_title = ustr ''Hybrid Learning'',
              cat_items = [], cat_subtotal = JFloat (Fin 0)\<rparr>]
         \<and> rp_grand_total (results str_of loads api_key f1 f2 f3 r1 r2) = Fin 0
         \<and> rp_error (results str_of loads api_key f1 f2 f3 r1 r2) = None"
  by (simp add: results_def Let_def try_block_fallback[OF assms] CATEGORY_KEYS_def)

lemma no_braces_example:
  "\<not> truthy (extract_json_from_text (\<lambda>s. None) (ustr ''no braces here''))
   \<and> \<not> truthy (extract_json_from_text (\<lambda>s. None) (ustr ''still {not json}''))"
  by (simp add: extract_json_from_text_def brace_region_def ustr_def)

theorem results_empty_skeleton_witness:
  "\<not> truthy (extract_json_from_text (\<lambda>s. None) (ustr ''no braces here''))
   \<and> \<not> truthy (extract_json_from_text (\<lambda>s. None) (ustr ''still {not json}''))
   \<and> rp_categories (results (\<lambda>v. []) (\<lambda>s. None) True (ustr ''Smart Kiosk'') []
         (ustr ''Dubai, UAE'') (Inr (ustr ''no braces here'')) (Inr (ustr ''still {not json}'')))
       = [\<lparr>cat_key = ustr ''vision_2030'',
            cat_title = ustr ''Vision 2030 & Global Event Diplomacy'',
            cat_items = [], cat_subtotal = JFloat (Fin 0)\<rparr>,
          \<lparr>cat_key = ustr ''financial_modeling'', cat_title = ustr ''Financial Modeling'',
            cat_items = [], cat_subtotal = JFloat (Fin 0)\<rparr>,
          \<lparr>cat_key = ustr ''government_relations'', cat_title = ustr ''Government Relations'',
            cat_items = [], cat_subtotal = JFloat (Fin 0)\<rparr>,
          \<lparr>cat_key = ustr ''global_case_stories'', cat_title = ustr ''Global Case Stories'',
            cat_items = [], cat_subtotal = JFloat (Fin 0)\<rparr>,
          \<lparr>cat_key = ustr ''hybrid_learning'', cat_title = ustr ''Hybrid Learning'',
            cat_items = [], cat_subtotal = JFloat (Fin 0)\<rparr>]
   \<and> rp_grand_total (results (\<lambda>v. []) (\<lambda>s. None) True (ustr ''Smart Kiosk'') []
         (ustr ''Dubai, UAE'') (Inr (ustr ''no braces here'')) (Inr (ustr ''still {not json}'')))
       = Fin 0
   \<and> rp_error (results (\<lambda>v. []) (\<lambda>s. None) True (ustr ''Smart Kiosk'') []
         (ustr ''Dubai, UAE'') (Inr (ustr ''no braces here'')) (Inr (ustr ''still {not json}'')))
       = None"
  using no_braces_example
    results_empty_skeleton[of True "Inr (ustr ''no braces here'')" "ustr ''no braces here''"
      "Inr (ustr ''still {not json}'')" "ustr ''still {not json}''" "\<lambda>s. None" "\<lambda>v. []"
      "ustr ''Smart Kiosk''" "[]" "ustr ''Dubai, UAE''"]
  by simp

text \<open>
  C4.  Whenever the \<^verbatim>\<open>try\<close> block of the handler raises an exception \<open>e\<close>, the handler
  renders the degraded report: the first category holds the one item named
  \<^verbatim>\<open>"Error"\<close> with \<^verbatim>\<open>str(e)\<close> as its specs, the quantity 1 and the price 0, the four other
  categories are empty, every subtotal is 0, the grand total is 0.0, and \<^verbatim>\<open>str(e)\<close> is
  passed as the error.  The block raises when the key is not configured (with the
  message of the \<^verbatim>\<open>RuntimeError\<close>), when the first call of the model raises, when the
  first text yields no data and the follow-up call raises, and when the normalizer
  raises; otherwise the report carries no error.
\<close>

theorem results_degraded_on_failure:
  "(try_block str_of loads api_key (if strip f1 \<noteq> [] then strip f1 else strip f2)
       (detect_currency_code (strip f3)) r1 r2 = Inl e \<longrightarrow>
      rp_categories (results str_of loads api_key f1 f2 f3 r1 r2)
      = [\<lparr>cat_key = ustr ''vision_2030'',
           cat_title = ustr ''Vision 2030 & Global Event Diplomacy'',
           cat_items = [\<lparr>it_name = JStr (ustr ''Error''), it_specs = JStr (err_str e),
                          it_quantity = 1, it_price = JInt 0\<rparr>],
           cat_subtotal = JInt 0\<rparr>,
         \<lparr>cat_key = ustr ''financial_modeling'', cat_title = ustr ''Financial Modeling'',
           cat_items = [], cat_subtotal = JInt 0\<rparr>,
         \<lparr>cat_key = ustr ''government_relations'', cat_title = ustr ''Government Relations'',
           cat_items = [], cat_subtotal = JInt 0\<rparr>,
         \<lparr>cat_key = ustr ''global_case_stories'', cat_title = ustr ''Global Case Stories'',
           cat_items = [], cat_subtotal = JInt 0\<rparr>,
         \<lparr>cat_key = ustr ''hybrid_learning'', cat_title = ustr ''Hybrid Learning'',
           cat_items = [], cat_subtotal = JInt 0\<rparr>]
      \<and> rp_grand_total (results str_of loads api_key f1 f2 f3 r1 r2) = Fin 0
      \<and> rp_error (results str_of loads api_key f1 f2 f3 r1 r2) = Some (err_str e))
   \<and> (\<not> api_key \<longrightarrow>
        try_block str_of loads api_key p c r1 r2
        = Inl (RuntimeError (ustr ''GOOGLE_API_KEY is not configured in the environment.'')))
   \<and> (api_key \<longrightarrow> r1 = Inl e \<longrightarrow> try_block str_of loads api_key p c r1 r2 = Inl e)
   \<and> (api_key \<longrightarrow> r1 = Inr text1 \<longrightarrow> \<not> truthy (extract_json_from_text loads text1) \<longrightarrow>
        r2 = Inl e \<longrightarrow> try_block str_of loads api_key p c r1 r2 = Inl e)
   \<and> (api_key \<longrightarrow> r1 = Inr text1 \<longrightarrow> truthy (extract_json_from_text loads text1) \<longrightarrow>
        normalize str_of (extract_json_from_text loads text1) = Inl e \<longrightarrow>
        try_block str_of loads api_key p c r1 r2 = Inl e)
   \<and> (try_block str_of loads api_key (if strip f1 \<noteq> [] then strip f1 else strip f2)
         (detect_currency_code (strip f3)) r1 r2 = Inr v \<longrightarrow>
        rp_error (results str_of loads api_key f1 f2 f3 r1 r2) = None)"
  by (auto simp: results_def Let_def categories_fallback_def CATEGORY_KEYS_def error_block_def
      try_block_def ustr_def split: prod.splits)

theorem results_degraded_witness:
  "try_block (\<lambda>v. []) (\<lambda>s. None) False (ustr ''Smart Kiosk'') (ustr ''AED'')
     (Inr []) (Inr [])
   = Inl (RuntimeError (ustr ''GOOGLE_API_KEY is not configured in the environment.''))
   \<and> rp_error (results (\<lambda>v. []) (\<lambda>s. None) False (ustr ''Smart Kiosk'') []
         (ustr ''Dubai, UAE'') (Inr []) (Inr []))
       = Some (ustr ''GOOGLE_API_KEY is not configured in the environment.'')
   \<and> rp_grand_total (results (\<lambda>v. []) (\<lambda>s. None) False (ustr ''Smart Kiosk'') []
         (ustr ''Dubai, UAE'') (Inr []) (Inr [])) = Fin 0"
proof -
  note t = results_degraded_on_failure[of "\<lambda>v. []" "\<lambda>s. None" False "ustr ''Smart Kiosk''" "[]"
      "ustr ''Dubai, UAE''" "Inr []" "Inr []"
      "RuntimeError (ustr ''GOOGLE_API_KEY is not configured in the environment.'')"
      "ustr ''Smart Kiosk''" "ustr ''AED''" "[]" "([], Fin 0, JNull)"]
  have k: "try_block (\<lambda>v. []) (\<lambda>s. None) False
             (if strip (ustr ''Smart Kiosk'') \<noteq> [] then strip (ustr ''Smart Kiosk'') else strip [])
             (detect_currency_code (strip (ustr ''Dubai, UAE''))) (Inr []) (Inr [])
           = Inl (RuntimeError (ustr ''GOOGLE_API_KEY is not configured in the environment.''))"
    by (simp add: try_block_def)
  from t have 1: "try_block (\<lambda>v. []) (\<lambda>s. None) False (ustr ''Smart Kiosk'') (ustr ''AED'')
       (Inr []) (Inr [])
     = Inl (RuntimeError (ustr ''GOOGLE_API_KEY is not configured in the environment.''))"
    by blast
  from t k have "rp_grand_total (results (\<lambda>v. []) (\<lambda>s. None) False (ustr ''Smart Kiosk'') []
         (ustr ''Dubai, UAE'') (Inr []) (Inr [])) = Fin 0
     \<and> rp_error (results (\<lambda>v. []) (\<lambda>s. None) False (ustr ''Smart Kiosk'') []
         (ustr ''Dubai, UAE'') (Inr []) (Inr []))
       = Some (err_str (RuntimeError (ustr ''GOOGLE_API_KEY is not configured in the environment.'')))"
    by blast
  with 1 show ?thesis by simp
qed














lemmas normalize_eval = normalize_def normalize_categories.simps CATEGORY_KEYS_def
  normalize_category_def json_get_def dict_get_def block_items_def block_subtotal_def
  iterate_def normalize_items.simps normalize_item_def item_quantity_def item_price_def
  py_int_def pyval_of_def resolve_subtotal_def py_float_def is_number_def positive_def

text \<open>
  The documented scenario: five categories, each with one item priced
  \<^verbatim>\<open>"1,000-1,200"\<close> in the quantity 2 and no subtotal, give the subtotals 2200.0 and the
  grand total 11000.0.
\<close>

lemma normalize_scenario:
  "normalize (\<lambda>v. [])
     (JDict (map (\<lambda>(key, pretty).
                    (key, JDict [(ustr ''items'',
                            JList [JDict [(ustr ''name'', JStr (ustr ''Unit'')),
                                          (ustr ''specs'', JStr (ustr ''std'')),
                                          (ustr ''quantity'', JInt 2),
                                          (ustr ''price'', JStr (ustr ''1,000-1,200''))]])]))
               CATEGORY_KEYS))
   = Inr (map (\<lambda>(key, pretty).
                 \<lparr>cat_key = key, cat_title = pretty,
                  cat_items = [\<lparr>it_name = JStr (ustr ''Unit''), it_specs = JStr (ustr ''std''),
                                 it_quantity = 2, it_price = JFloat (Fin 1100)\<rparr>],
                  cat_subtotal = JFloat (Fin 2200)\<rparr>)
            CATEGORY_KEYS,
          Fin 11000)"
  by (simp add: normalize_eval parse_eval)





section \<open>JSON extractor: properties\<close>
















end
